theory Spec2Isabelle
  imports Main
begin

section \<open>The tag-string parser (pkg/driver/tag_parser.go)\<close>

text \<open>
  The parser works on \<open>[]rune(raw)\<close>. A \<^typ>\<open>string\<close> of the model is that rune
  sequence, one \<^typ>\<open>char\<close> per rune; the parser only ever compares a rune with the
  single quote, the space and the colon, and copies every other rune unchanged.
  The single quote is \<open>CHR 0x27\<close>.
\<close>

text \<open>
  The loop of \<open>extractPairsFromRawString\<close>, with its three variables \<open>result\<close>,
  \<open>accumulator\<close> and \<open>literal\<close>; the first equation is the code after the loop.
\<close>

fun extractPairs_loop :: "string \<Rightarrow> string list \<Rightarrow> string \<Rightarrow> bool \<Rightarrow> string list" where
  "extractPairs_loop [] result accumulator literal =
     (if accumulator \<noteq> [] then result @ [accumulator] else result)"
| "extractPairs_loop (c # chars) result accumulator literal =
     (if c = CHR 0x27 then extractPairs_loop chars result (accumulator @ [c]) (\<not> literal)
      else if c = CHR '' '' then
        (if literal then extractPairs_loop chars result (accumulator @ [c]) literal
         else extractPairs_loop chars (result @ [accumulator]) [] literal)
      else extractPairs_loop chars result (accumulator @ [c]) literal)"

definition extractPairsFromRawString :: "string \<Rightarrow> string list" where
  "extractPairsFromRawString raw = extractPairs_loop raw [] [] False"

text \<open>
  The loop of \<open>extractKeyAndValueFromRawPair\<close>: \<open>i\<close> is the index of the rune at the
  head of the remaining input; the result is \<open>(key, literal, finalKeyIndex)\<close> as the
  loop leaves them, \<open>finalKeyIndex\<close> keeping its initial \<open>-1\<close> when the loop runs to
  the end of the token.
\<close>

fun extractKey_loop :: "string \<Rightarrow> nat \<Rightarrow> string \<Rightarrow> bool \<Rightarrow> string \<times> bool \<times> int" where
  "extractKey_loop [] i key literal = (key, literal, - 1)"
| "extractKey_loop (c # chars) i key literal =
     (if c = CHR 0x27 then extractKey_loop chars (Suc i) key (\<not> literal)
      else if c = CHR '':'' then
        (if literal then extractKey_loop chars (Suc i) (key @ [c]) literal
         else (key, literal, int i))
      else extractKey_loop chars (Suc i) (key @ [c]) literal)"

datatype tag_error = UnmatchedQuotes | EmptyKey

definition extractKeyAndValueFromRawPair :: "string \<Rightarrow> tag_error + (string \<times> string)" where
  "extractKeyAndValueFromRawPair pair =
     (case extractKey_loop pair 0 [] False of
        (key, literal, finalKeyIndex) \<Rightarrow>
          if literal then Inl UnmatchedQuotes
          else if key = [] then Inl EmptyKey
          else
            let value0 = drop (nat (finalKeyIndex + 1)) pair;
                value1 = (if value0 \<noteq> [] \<and> hd value0 = CHR 0x27 then tl value0 else value0);
                value2 = (if value1 \<noteq> [] \<and> last value1 = CHR 0x27 then butlast value1 else value1)
            in Inr (key, value2))"

text \<open>
  The loop of \<open>parseTagsFromStr\<close> over the tokens: a token whose extraction returns an
  error is logged and skipped, any other token writes \<open>m[k] = v\<close>.
\<close>

fun parseTags_loop :: "string list \<Rightarrow> (string \<rightharpoonup> string) \<Rightarrow> (string \<rightharpoonup> string)" where
  "parseTags_loop [] m = m"
| "parseTags_loop (pair # tagsSplit) m =
     (case extractKeyAndValueFromRawPair pair of
        Inl err \<Rightarrow> parseTags_loop tagsSplit m
      | Inr (k, v) \<Rightarrow> parseTags_loop tagsSplit (m(k \<mapsto> v)))"

text \<open>
  No slice expression of the two helpers can go out of range (\<open>finalKeyIndex + 1\<close> is
  between \<open>0\<close> and the length of the token, and both one-character cuts are guarded
  by \<open>len(value) > 0\<close>), so the deferred \<open>recover\<close> never fires and is not modelled.
\<close>

definition parseTagsFromStr :: "string \<Rightarrow> (string \<rightharpoonup> string)" where
  "parseTagsFromStr tagStr =
     (if tagStr = [] then Map.empty
      else parseTags_loop (extractPairsFromRawString tagStr) Map.empty)"

section \<open>Go library functions the provisioners call\<close>

text \<open>
  From here on a \<^typ>\<open>string\<close> is a Go string, a sequence of bytes. \<open>int\<close> is the
  64-bit \<open>int\<close> of the platforms the driver is built for; the provisioners do no
  arithmetic on it, so it is a HOL \<^typ>\<open>int\<close> and the only place its width shows
  is the range check of \<open>strconv.Atoi\<close>.
\<close>

definition isDigit :: "char \<Rightarrow> bool" where
  "isDigit c = (48 \<le> (of_char c :: nat) \<and> (of_char c :: nat) \<le> 57)"

definition digitsValue :: "nat \<Rightarrow> string \<Rightarrow> nat" where
  "digitsValue base ds = foldl (\<lambda>n c. base * n + ((of_char c :: nat) - 48)) 0 ds"

text \<open>
  \<open>strconv.Atoi\<close>: an optional sign, then one or more decimal digits, the value within
  the range of a 64-bit \<open>int\<close>; \<open>None\<close> is a non-nil error.
\<close>

definition Atoi :: "string \<Rightarrow> int option" where
  "Atoi s =
     (let neg = (s \<noteq> [] \<and> hd s = CHR ''-'');
          ds = (if s \<noteq> [] \<and> (hd s = CHR ''-'' \<or> hd s = CHR ''+'') then tl s else s);
          n = (if neg then - int (digitsValue 10 ds) else int (digitsValue 10 ds))
      in if ds = [] \<or> \<not> list_all isDigit ds then None
         else if n < - (2 ^ 63) \<or> 2 ^ 63 - 1 < n then None
         else Some n)"

text \<open>
  \<open>strconv.ParseUint(value, 8, 32)\<close>: one or more octal digits, no sign, the value
  below \<open>2^32\<close>.
\<close>

definition isOctalDigit :: "char \<Rightarrow> bool" where
  "isOctalDigit c = (48 \<le> (of_char c :: nat) \<and> (of_char c :: nat) \<le> 55)"

definition ParseUint_8_32 :: "string \<Rightarrow> nat option" where
  "ParseUint_8_32 s =
     (if s = [] \<or> \<not> list_all isOctalDigit s then None
      else if digitsValue 8 s < 2 ^ 32 then Some (digitsValue 8 s)
      else None)"

text \<open>
  \<open>strings.TrimSpace(value) == ""\<close>: the string is a sequence of UTF-8 encoded white
  space runes and nothing else. White space is what \<open>unicode.IsSpace\<close> accepts: tab,
  line feed, vertical tab, form feed, carriage return, space, U+0085, U+00A0, U+1680,
  U+2000 to U+200A, U+2028, U+2029, U+202F, U+205F and U+3000.
\<close>

fun TrimSpace_is_empty :: "string \<Rightarrow> bool" where
  "TrimSpace_is_empty [] = True"
| "TrimSpace_is_empty (b # bs) =
     (if b = CHR 0x09 \<or> b = CHR 0x0A \<or> b = CHR 0x0B \<or> b = CHR 0x0C \<or> b = CHR 0x0D
         \<or> b = CHR 0x20 then TrimSpace_is_empty bs
      else if b = CHR 0xC2 then
        (case bs of
           c # r \<Rightarrow> (c = CHR 0x85 \<or> c = CHR 0xA0) \<and> TrimSpace_is_empty r
         | [] \<Rightarrow> False)
      else if b = CHR 0xE1 then
        (case bs of
           c # d # r \<Rightarrow> c = CHR 0x9A \<and> d = CHR 0x80 \<and> TrimSpace_is_empty r
         | _ \<Rightarrow> False)
      else if b = CHR 0xE2 then
        (case bs of
           c # d # r \<Rightarrow>
             (c = CHR 0x80 \<and> (128 \<le> (of_char d :: nat) \<and> (of_char d :: nat) \<le> 138
                               \<or> d = CHR 0xA8 \<or> d = CHR 0xA9 \<or> d = CHR 0xAF)
              \<or> c = CHR 0x81 \<and> d = CHR 0x9F)
             \<and> TrimSpace_is_empty r
         | _ \<Rightarrow> False)
      else if b = CHR 0xE3 then
        (case bs of
           c # d # r \<Rightarrow> c = CHR 0x80 \<and> d = CHR 0x80 \<and> TrimSpace_is_empty r
         | _ \<Rightarrow> False)
      else False)"

section \<open>Requests, errors and collaborators\<close>

text \<open>
  The keys of the request's parameter map and of its secrets are package constants
  (\<open>FsId\<close>, \<open>Uid\<close>, ...) declared in a file of the package that is not covered
  here. They are the constructors of a datatype, and a parameter map is the request's
  map read at those keys.
\<close>

datatype param =
  ProvisioningMode | FsId | Uid | Gid | GidMin | GidMax | DirectoryPerms | BasePath | AzName

datatype secret = RoleArn

datatype volume_context_key = MountTargetIp

record CreateVolumeRequest =
  Name :: string
  CapacityRange :: "int option"
  Parameters :: "param \<rightharpoonup> string"
  Secrets :: "secret \<rightharpoonup> string"

text \<open>\<open>req.GetCapacityRange().GetRequiredBytes()\<close>: zero when the range is nil.\<close>

definition GetRequiredBytes :: "int option \<Rightarrow> int" where
  "GetRequiredBytes r = (case r of None \<Rightarrow> 0 | Some n \<Rightarrow> n)"

record DeleteVolumeRequest =
  DeleteVolumeId :: string
  DeleteSecrets :: "secret \<rightharpoonup> string"

record Volume =
  CapacityBytes :: int
  VolumeId :: string
  VolumeContext :: "volume_context_key \<rightharpoonup> string"

text \<open>
  A gRPC status error is its code and its message; the message is kept as the format
  string it was built from (one constructor each) with the arguments that identify
  it, the text of a wrapped error left out. An \<open>error\<close> is such a status, the
  allocator's \<open>RangeExhausted\<close>, or any other error value, which the provisioners
  pass on as they get it.
\<close>

datatype codes = InvalidArgument | Unauthenticated | AlreadyExists | Internal

datatype msg =
    VolumeNameNotProvided
  | ParameterCannotBeEmpty param
  | MissingParameter param
  | FailedToParseInvalid param
  | MustBeGreaterOrEqualThan0 param
  | MustBeGreaterThan0 param
  | MustBeGreaterThan param param
  | UnableToInitializeAwsCloud
  | AccessDenied
  | FileSystemDoesNotExist
  | FailedToFetchFileSystemInfo
  | AccessPointAlreadyExists
  | FailedToCreateAccessPoint string
  | CouldNotCreateDir string
  | CouldNotMount string string
  | CouldNotProvisionDirectory
  | CouldNotUnmount string
  | CouldNotDelete string
  | CouldNotDeleteDirectory string
  | InvalidVolumeId string

datatype error = Status codes msg | RangeExhausted string | Opaque string

datatype cloud_error = ErrAccessDenied | ErrNotFound | ErrAlreadyExists | ErrOther string

record AccessPointOptions =
  CapacityGiB :: int
  Tags :: "string \<rightharpoonup> string"
  FileSystemId :: string
  DirectoryPerms_field :: string
  Uid_field :: int
  Gid_field :: int
  DirectoryPath :: string

record AccessPoint =
  AccessPointId :: string

record MountTarget =
  IPAddress :: string

text \<open>
  Every call to a collaborator is appended to a log, so that what a routine attempted
  can be read off afterwards.
\<close>

datatype call =
    DescribeFileSystemCall string
  | GetNextGidCall string int int
  | ReleaseGidCall string int
  | CreateAccessPointCall string AccessPointOptions
  | DescribeMountTargetsCall string string
  | MakeDirCall string
  | MountCall string string string "string list"
  | UnmountCall string
  | MkDirAllWithPermsCall string nat int int
  | RemoveCall string
  | RemoveAllCall string

text \<open>
  The remote service, the mounter and the OS client are interfaces whose
  implementations are outside the core. A method is a function of the log of the calls
  made before it and of its arguments, so a collaborator may answer the same request
  differently at different moments; \<open>None\<close> (or \<open>Inr\<close>) is a nil error.
\<close>

record Cloud =
  DescribeFileSystem :: "call list \<Rightarrow> string \<Rightarrow> cloud_error option"
  CreateAccessPoint :: "call list \<Rightarrow> string \<Rightarrow> AccessPointOptions \<Rightarrow> cloud_error + AccessPoint"
  DescribeMountTargets :: "call list \<Rightarrow> string \<Rightarrow> string \<Rightarrow> cloud_error + MountTarget"

record Mounter =
  MakeDir :: "call list \<Rightarrow> string \<Rightarrow> string option"
  Mount :: "call list \<Rightarrow> string \<Rightarrow> string \<Rightarrow> string \<Rightarrow> string list \<Rightarrow> string option"
  Unmount :: "call list \<Rightarrow> string \<Rightarrow> string option"

record OsClient =
  MkDirAllWithPerms :: "call list \<Rightarrow> string \<Rightarrow> nat \<Rightarrow> int \<Rightarrow> int \<Rightarrow> string option"
  Remove :: "call list \<Rightarrow> string \<Rightarrow> string option"
  RemoveAll :: "call list \<Rightarrow> string \<Rightarrow> string option"

text \<open>
  What the two provisioners use of their package and of its imports and is declared
  in no file covered here, taken as parameters: the constants, the constructor
  \<open>cloud.NewCloudWithRole\<close>, the free functions \<open>getCloud\<close> and \<open>getMountOptions\<close> of
  the directory provisioner (they are handed neither the mounter nor the OS client,
  so they log no call), \<open>path.Join\<close>, and the string of the fresh \<open>uuid.New()\<close> of
  each call, which the routines below take as an argument.
\<close>

record package =
  DefaultTagKey :: string
  DefaultTagValue :: string
  DefaultGidMin :: int
  DefaultGidMax :: int
  TempMountPathPrefix :: string
  NewCloudWithRole :: "string \<Rightarrow> Cloud option"
  getCloud :: "Cloud \<Rightarrow> (secret \<rightharpoonup> string) \<Rightarrow> error + (Cloud \<times> string)"
  getMountOptions :: "Cloud \<Rightarrow> string \<Rightarrow> string \<Rightarrow> error + string list"
  path_Join :: "string \<Rightarrow> string \<Rightarrow> string"

section \<open>The identity range allocator\<close>

text \<open>
  Modelled from the spec: the type \<open>GidAllocator\<close>, which the access-point provisioner
  holds a pointer to and no file covered here declares. Section 3: one ledger per
  filesystem id, created on first access, holding the integers currently allocated.
\<close>

type_synonym GidAllocator = "string \<rightharpoonup> int set"

text \<open>
  Modelled from the spec: the method \<open>getNextGid\<close> of the allocator, which \<open>Provision\<close>
  calls and no file covered here defines. Section 4.2, \<open>acquire\<close>: it returns the
  smallest integer of \<open>[min, max]\<close> not currently allocated for the filesystem, and
  fails with \<open>RangeExhausted\<close> when the range has no free integer.
\<close>

definition getNextGid :: "GidAllocator \<Rightarrow> string \<Rightarrow> int \<Rightarrow> int \<Rightarrow> (error + int) \<times> GidAllocator" where
  "getNextGid g filesystemId gidMin gidMax =
     (let held = (case g filesystemId of None \<Rightarrow> {} | Some h \<Rightarrow> h) in
      case List.find (\<lambda>i. i \<notin> held) [gidMin..gidMax] of
        None \<Rightarrow> (Inl (RangeExhausted filesystemId), g(filesystemId \<mapsto> held))
      | Some i \<Rightarrow> (Inr i, g(filesystemId \<mapsto> insert i held)))"

text \<open>
  Modelled from the spec: the method \<open>releaseGid\<close> of the allocator, which \<open>Provision\<close>
  calls and no file covered here defines. Section 4.2, \<open>release\<close>: it marks the id
  free for the filesystem; releasing an unallocated or unknown id is a silent no-op.
\<close>

definition releaseGid :: "GidAllocator \<Rightarrow> string \<Rightarrow> int \<Rightarrow> GidAllocator" where
  "releaseGid g filesystemId gid =
     (case g filesystemId of
        None \<Rightarrow> g
      | Some held \<Rightarrow> g(filesystemId \<mapsto> held - {gid}))"

section \<open>The volume identifier codec\<close>

text \<open>
  The two encodings are the expressions the provisioners return as \<open>VolumeId\<close>.
\<close>

definition accessPointVolumeId :: "string \<Rightarrow> string \<Rightarrow> string" where
  "accessPointVolumeId fileSystemId accessPointId = fileSystemId @ ''::'' @ accessPointId"

definition directoryVolumeId :: "string \<Rightarrow> string \<Rightarrow> string" where
  "directoryVolumeId fileSystemId provisionedPath = fileSystemId @ '':'' @ provisionedPath"

text \<open>
  Modelled from the spec: \<open>parseVolumeId\<close>, which both delete paths call and no file
  covered here defines. Section 3: the identifier is \<open><filesystemId>::<accessPointId>\<close> or
  \<open><filesystemId>:<subPath>\<close>; decoding classifies the form by its separator, two
  colons or one, and extracts \<open>(filesystemId, subPath, accessPointId)\<close>, the field that
  does not apply being empty. The call sites read four results, the last an error. The
  filesystem id is what precedes the first colon. The spec does not say what a string
  with no colon decodes to: the model returns it whole as the filesystem id, with an
  error.
\<close>

definition parseVolumeId :: "string \<Rightarrow> string \<times> string \<times> string \<times> error option" where
  "parseVolumeId volumeId =
     (let fsid = takeWhile (\<lambda>c. c \<noteq> CHR '':'') volumeId;
          rest = dropWhile (\<lambda>c. c \<noteq> CHR '':'') volumeId
      in case rest of
           [] \<Rightarrow> (fsid, [], [], Some (Status InvalidArgument (InvalidVolumeId volumeId)))
         | c # r \<Rightarrow>
             (case r of
                [] \<Rightarrow> (fsid, [], [], None)
              | d # r' \<Rightarrow>
                  if d = CHR '':'' then (fsid, [], r', None) else (fsid, r, [], None)))"

section \<open>The access-point provisioner\<close>

text \<open>
  The struct, without the two fields only \<open>Delete\<close> reads and without the pointer to
  the allocator: the allocator is state, threaded through \<open>Provision\<close> together with
  the log of calls.
\<close>

record AccessPointProvisioner =
  tags :: "string \<rightharpoonup> string"
  cloud :: Cloud

record world =
  allocator :: GidAllocator
  calls :: "call list"

text \<open>
  \<open>Provision\<close> is one long function; the model follows it block by block. The block
  that reads the filesystem id is the same in both provisioners.
\<close>

definition fileSystemIdParam :: "(param \<rightharpoonup> string) \<Rightarrow> error + string" where
  "fileSystemIdParam volumeParams =
     (case volumeParams FsId of
        Some value \<Rightarrow>
          if TrimSpace_is_empty value
          then Inl (Status InvalidArgument (ParameterCannotBeEmpty FsId))
          else Inr value
      | None \<Rightarrow> Inl (Status InvalidArgument (MissingParameter FsId)))"

text \<open>The block \<open>uid = -1; if value, ok := volumeParams[Uid]; ok { ... }\<close>.\<close>

definition uidParam :: "(param \<rightharpoonup> string) \<Rightarrow> error + int" where
  "uidParam volumeParams =
     (case volumeParams Uid of
        None \<Rightarrow> Inr (- 1)
      | Some value \<Rightarrow>
          (case Atoi value of
             None \<Rightarrow> Inl (Status InvalidArgument (FailedToParseInvalid Uid))
           | Some uid \<Rightarrow>
               if uid < 0 then Inl (Status InvalidArgument (MustBeGreaterOrEqualThan0 Uid))
               else Inr uid))"

text \<open>
  The block \<open>gid = -1; if value, ok := volumeParams[Gid]; ok { ... }\<close>, whose range
  check reads \<open>if uid < 0\<close>: the second argument is the \<open>uid\<close> the block before left.
\<close>

definition gidParam :: "(param \<rightharpoonup> string) \<Rightarrow> int \<Rightarrow> error + int" where
  "gidParam volumeParams uid =
     (case volumeParams Gid of
        None \<Rightarrow> Inr (- 1)
      | Some value \<Rightarrow>
          (case Atoi value of
             None \<Rightarrow> Inl (Status InvalidArgument (FailedToParseInvalid Gid))
           | Some gid \<Rightarrow>
               if uid < 0 then Inl (Status InvalidArgument (MustBeGreaterOrEqualThan0 Gid))
               else Inr gid))"

text \<open>
  The three blocks on \<open>GidMin\<close> and \<open>GidMax\<close>; both variables start at zero, and the
  built-in pair replaces two zeros.
\<close>

definition gidRangeParams :: "package \<Rightarrow> (param \<rightharpoonup> string) \<Rightarrow> error + (int \<times> int)" where
  "gidRangeParams pkg volumeParams =
     (case (case volumeParams GidMin of
              None \<Rightarrow> Inr 0
            | Some value \<Rightarrow>
                (case Atoi value of
                   None \<Rightarrow> Inl (Status InvalidArgument (FailedToParseInvalid GidMin))
                 | Some gidMin \<Rightarrow>
                     if gidMin \<le> 0 then Inl (Status InvalidArgument (MustBeGreaterThan0 GidMin))
                     else Inr gidMin)) of
        Inl e \<Rightarrow> Inl e
      | Inr gidMin \<Rightarrow>
          (case (case volumeParams GidMax of
                   Some value \<Rightarrow>
                     if gidMin = 0 then Inl (Status InvalidArgument (MissingParameter GidMin))
                     else
                       (case Atoi value of
                          None \<Rightarrow> Inl (Status InvalidArgument (FailedToParseInvalid GidMax))
                        | Some gidMax \<Rightarrow>
                            if gidMax \<le> gidMin
                            then Inl (Status InvalidArgument (MustBeGreaterThan GidMax GidMin))
                            else Inr gidMax)
                 | None \<Rightarrow>
                     if gidMin \<noteq> 0 then Inl (Status InvalidArgument (MissingParameter GidMax))
                     else Inr 0) of
             Inl e \<Rightarrow> Inl e
           | Inr gidMax \<Rightarrow>
               if gidMin = 0 \<and> gidMax = 0 then Inr (DefaultGidMin pkg, DefaultGidMax pkg)
               else Inr (gidMin, gidMax)))"

text \<open>The method \<open>getCloud\<close> of the access-point provisioner.\<close>

definition AccessPointProvisioner_getCloud ::
  "package \<Rightarrow> AccessPointProvisioner \<Rightarrow> (secret \<rightharpoonup> string) \<Rightarrow> error + (Cloud \<times> string)" where
  "AccessPointProvisioner_getCloud pkg a secrets =
     (let roleArn = (case secrets RoleArn of Some value \<Rightarrow> value | None \<Rightarrow> []) in
      if roleArn \<noteq> [] then
        (case NewCloudWithRole pkg roleArn of
           None \<Rightarrow> Inl (Status Unauthenticated UnableToInitializeAwsCloud)
         | Some localCloud \<Rightarrow> Inr (localCloud, roleArn))
      else Inr (cloud a, roleArn))"

text \<open>
  \<open>accessPointsOptions\<close> as it stands when \<open>CreateAccessPoint\<close> is called: the tags are
  the default tag overlaid with the provisioner's, \<open>uid\<close> and \<open>gid\<close> are the resolved
  identity.
\<close>

definition accessPointsOptions ::
  "package \<Rightarrow> AccessPointProvisioner \<Rightarrow> CreateVolumeRequest \<Rightarrow> string \<Rightarrow> int \<Rightarrow> int
   \<Rightarrow> AccessPointOptions" where
  "accessPointsOptions pkg a req fsId uid gid =
     \<lparr>CapacityGiB = GetRequiredBytes (CapacityRange req),
      Tags = [DefaultTagKey pkg \<mapsto> DefaultTagValue pkg] ++ tags a,
      FileSystemId = fsId,
      DirectoryPerms_field = (case Parameters req DirectoryPerms of Some value \<Rightarrow> value | None \<Rightarrow> []),
      Uid_field = uid,
      Gid_field = gid,
      DirectoryPath = (case Parameters req BasePath of Some value \<Rightarrow> value | None \<Rightarrow> [])
                      @ ''/'' @ Name req\<rparr>"

text \<open>
  The calls of \<open>Provision\<close>, from \<open>DescribeFileSystem\<close> to the end. \<open>allocatedGid\<close> is
  zero when the allocator is not asked. On a failed \<open>CreateAccessPoint\<close> the code
  releases \<open>gid\<close>, the variable, whatever it holds.
\<close>

definition Provision_calls ::
  "package \<Rightarrow> AccessPointProvisioner \<Rightarrow> CreateVolumeRequest \<Rightarrow> Cloud \<Rightarrow> string \<Rightarrow> string
   \<Rightarrow> int \<Rightarrow> int \<Rightarrow> int \<Rightarrow> int \<Rightarrow> world \<Rightarrow> (error + Volume) \<times> world" where
  "Provision_calls pkg a req localCloud roleArn fsId uid0 gid0 gidMin gidMax w =
     (let w1 = w\<lparr>calls := calls w @ [DescribeFileSystemCall fsId]\<rparr> in
      case DescribeFileSystem localCloud (calls w) fsId of
        Some err \<Rightarrow>
          (Inl (if err = ErrAccessDenied then Status Unauthenticated AccessDenied
                else if err = ErrNotFound then Status InvalidArgument FileSystemDoesNotExist
                else Status Internal FailedToFetchFileSystemInfo), w1)
      | None \<Rightarrow>
          (case (if uid0 = - 1 \<or> gid0 = - 1 then
                   (case getNextGid (allocator w1) fsId gidMin gidMax of
                      (r, g) \<Rightarrow>
                        (r, \<lparr>allocator = g,
                             calls = calls w1 @ [GetNextGidCall fsId gidMin gidMax]\<rparr>))
                 else (Inr 0, w1)) of
             (Inl e, w2) \<Rightarrow> (Inl e, w2)
           | (Inr allocatedGid, w2) \<Rightarrow>
               (let uid = (if uid0 = - 1 then allocatedGid else uid0);
                    gid = (if gid0 = - 1 then allocatedGid else gid0);
                    opts = accessPointsOptions pkg a req fsId uid gid;
                    w3 = w2\<lparr>calls := calls w2 @ [CreateAccessPointCall (Name req) opts]\<rparr>
                in case CreateAccessPoint localCloud (calls w2) (Name req) opts of
                     Inl err \<Rightarrow>
                       (Inl (if err = ErrAccessDenied then Status Unauthenticated AccessDenied
                             else if err = ErrAlreadyExists
                             then Status AlreadyExists AccessPointAlreadyExists
                             else Status Internal (FailedToCreateAccessPoint fsId)),
                        \<lparr>allocator = releaseGid (allocator w3) fsId gid,
                         calls = calls w3 @ [ReleaseGidCall fsId gid]\<rparr>)
                   | Inr accessPointId \<Rightarrow>
                       (if roleArn \<noteq> [] then
                          (let azName = (case Parameters req AzName of
                                           Some value \<Rightarrow> value | None \<Rightarrow> []);
                               w4 = w3\<lparr>calls := calls w3 @ [DescribeMountTargetsCall fsId azName]\<rparr>
                           in case DescribeMountTargets localCloud (calls w3) fsId azName of
                                Inl err \<Rightarrow>
                                  (Inr \<lparr>CapacityBytes = GetRequiredBytes (CapacityRange req),
                                        VolumeId = accessPointVolumeId fsId (AccessPointId accessPointId),
                                        VolumeContext = Map.empty\<rparr>, w4)
                              | Inr mountTarget \<Rightarrow>
                                  (Inr \<lparr>CapacityBytes = GetRequiredBytes (CapacityRange req),
                                        VolumeId = accessPointVolumeId fsId (AccessPointId accessPointId),
                                        VolumeContext = [MountTargetIp \<mapsto> IPAddress mountTarget]\<rparr>,
                                   w4))
                        else
                          (Inr \<lparr>CapacityBytes = GetRequiredBytes (CapacityRange req),
                                VolumeId = accessPointVolumeId fsId (AccessPointId accessPointId),
                                VolumeContext = Map.empty\<rparr>, w3)))))"

definition AccessPointProvisioner_Provision ::
  "package \<Rightarrow> AccessPointProvisioner \<Rightarrow> CreateVolumeRequest \<Rightarrow> world \<Rightarrow> (error + Volume) \<times> world" where
  "AccessPointProvisioner_Provision pkg a req w =
     (let volumeParams = Parameters req; volName = Name req in
      if volName = [] then (Inl (Status InvalidArgument VolumeNameNotProvided), w)
      else
        case fileSystemIdParam volumeParams of
          Inl e \<Rightarrow> (Inl e, w)
        | Inr fsId \<Rightarrow>
            (case uidParam volumeParams of
               Inl e \<Rightarrow> (Inl e, w)
             | Inr uid \<Rightarrow>
                 (case gidParam volumeParams uid of
                    Inl e \<Rightarrow> (Inl e, w)
                  | Inr gid \<Rightarrow>
                      (case gidRangeParams pkg volumeParams of
                         Inl e \<Rightarrow> (Inl e, w)
                       | Inr (gidMin, gidMax) \<Rightarrow>
                           (case AccessPointProvisioner_getCloud pkg a (Secrets req) of
                              Inl e \<Rightarrow> (Inl e, w)
                            | Inr (localCloud, roleArn) \<Rightarrow>
                                Provision_calls pkg a req localCloud roleArn fsId
                                  uid gid gidMin gidMax w)))))"

section \<open>The directory provisioner (pkg/driver/directory_provisioner.go)\<close>

record DirectoryProvisioner =
  mounter :: Mounter
  cloud_d :: Cloud
  osClient :: OsClient
  deleteProvisionedDir :: bool

text \<open>
  \<open>Provision\<close>; \<open>uuid\<close> is the string of the call's \<open>uuid.New()\<close>, \<open>tr\<close> the log of
  the calls made before. Every \<open>return\<close> of the source is a branch that ends here:
  the routine has no deferred call.
\<close>

definition DirectoryProvisioner_Provision ::
  "package \<Rightarrow> DirectoryProvisioner \<Rightarrow> string \<Rightarrow> CreateVolumeRequest \<Rightarrow> int \<Rightarrow> int
   \<Rightarrow> call list \<Rightarrow> (error + Volume) \<times> call list" where
  "DirectoryProvisioner_Provision pkg d uuid req uid gid tr =
     (let volumeParams = Parameters req in
      case fileSystemIdParam volumeParams of
        Inl e \<Rightarrow> (Inl e, tr)
      | Inr fileSystemId \<Rightarrow>
     (case getCloud pkg (cloud_d d) (Secrets req) of
        Inl e \<Rightarrow> (Inl e, tr)
      | Inr (localCloud, roleArn) \<Rightarrow>
     (case getMountOptions pkg localCloud fileSystemId roleArn of
        Inl e \<Rightarrow> (Inl e, tr)
      | Inr mountOptions \<Rightarrow>
     (let target = TempMountPathPrefix pkg @ ''/'' @ uuid;
          tr1 = tr @ [MakeDirCall target]
      in case MakeDir (mounter d) tr target of
        Some err \<Rightarrow> (Inl (Status Internal (CouldNotCreateDir target)), tr1)
      | None \<Rightarrow>
     (let tr2 = tr1 @ [MountCall fileSystemId target ''efs'' mountOptions]
      in case Mount (mounter d) tr1 fileSystemId target ''efs'' mountOptions of
        Some err \<Rightarrow> (Inl (Status Internal (CouldNotMount fileSystemId target)), tr2)
      | None \<Rightarrow>
     (let basePath = (case volumeParams BasePath of Some value \<Rightarrow> value | None \<Rightarrow> []);
          provisionedPath = basePath @ ''/'' @ Name req;
          perms = (case volumeParams DirectoryPerms of
                     Some value \<Rightarrow>
                       (case ParseUint_8_32 value of
                          Some parsedPerms \<Rightarrow> parsedPerms
                        | None \<Rightarrow> 493)
                   | None \<Rightarrow> 493);
          provisionedDirectory = path_Join pkg target provisionedPath;
          tr3 = tr2 @ [MkDirAllWithPermsCall provisionedDirectory perms uid gid]
      in case MkDirAllWithPerms (osClient d) tr2 provisionedDirectory perms uid gid of
        Some err \<Rightarrow> (Inl (Status Internal CouldNotProvisionDirectory), tr3)
      | None \<Rightarrow>
     (let tr4 = tr3 @ [UnmountCall target]
      in case Unmount (mounter d) tr3 target of
        Some err \<Rightarrow> (Inl (Status Internal (CouldNotUnmount target)), tr4)
      | None \<Rightarrow>
     (let tr5 = tr4 @ [RemoveAllCall target]
      in case RemoveAll (osClient d) tr4 target of
        Some err \<Rightarrow> (Inl (Status Internal (CouldNotDelete target)), tr5)
      | None \<Rightarrow>
          (Inr \<lparr>CapacityBytes = GetRequiredBytes (CapacityRange req),
                VolumeId = directoryVolumeId fileSystemId provisionedPath,
                VolumeContext = Map.empty\<rparr>, tr5)))))))))"

text \<open>
  The two deferred functions of \<open>Delete\<close>, in the order they run: the one deferred
  last, \<open>RemoveAll(target)\<close>, first, then \<open>Unmount(target)\<close>. Each overwrites the
  named result \<open>e\<close> when its call fails and leaves it alone otherwise.
\<close>

definition Delete_deferred ::
  "DirectoryProvisioner \<Rightarrow> string \<Rightarrow> error option \<Rightarrow> call list \<Rightarrow> error option \<times> call list" where
  "Delete_deferred d target e tr =
     (let e1 = (case RemoveAll (osClient d) tr target of
                  Some err \<Rightarrow> Some (Status Internal (CouldNotDelete target))
                | None \<Rightarrow> e);
          tr1 = tr @ [RemoveAllCall target];
          e2 = (case Unmount (mounter d) tr1 target of
                  Some err \<Rightarrow> Some (Status Internal (CouldNotUnmount target))
                | None \<Rightarrow> e1);
          tr2 = tr1 @ [UnmountCall target]
      in (e2, tr2))"

text \<open>
  \<open>Delete\<close>; the result is the error returned, \<open>None\<close> for nil. The returns before the
  two \<open>defer\<close> statements end the call; the three after them set \<open>e\<close> and run the
  deferred functions. The result of \<open>Remove(target)\<close> after a failed mount is dropped
  by the source.
\<close>

definition DirectoryProvisioner_Delete ::
  "package \<Rightarrow> DirectoryProvisioner \<Rightarrow> string \<Rightarrow> DeleteVolumeRequest \<Rightarrow> call list
   \<Rightarrow> error option \<times> call list" where
  "DirectoryProvisioner_Delete pkg d uuid req tr =
     (if \<not> deleteProvisionedDir d then (None, tr)
      else
        case parseVolumeId (DeleteVolumeId req) of
          (fileSystemId, subpath, accessPointId, perr) \<Rightarrow>
     (case getCloud pkg (cloud_d d) (DeleteSecrets req) of
        Inl e \<Rightarrow> (Some e, tr)
      | Inr (localCloud, roleArn) \<Rightarrow>
     (case getMountOptions pkg localCloud fileSystemId roleArn of
        Inl e \<Rightarrow> (Some e, tr)
      | Inr mountOptions \<Rightarrow>
     (let target = TempMountPathPrefix pkg @ ''/'' @ uuid;
          tr1 = tr @ [MakeDirCall target]
      in case MakeDir (mounter d) tr target of
        Some err \<Rightarrow> (Some (Status Internal (CouldNotCreateDir target)), tr1)
      | None \<Rightarrow>
     (let tr2 = tr1 @ [MountCall fileSystemId target ''efs'' mountOptions]
      in case Mount (mounter d) tr1 fileSystemId target ''efs'' mountOptions of
        Some err \<Rightarrow>
          Delete_deferred d target (Some (Status Internal (CouldNotMount fileSystemId target)))
            (tr2 @ [RemoveCall target])
      | None \<Rightarrow>
     (let tr3 = tr2 @ [RemoveAllCall (target @ subpath)]
      in case RemoveAll (osClient d) tr2 (target @ subpath) of
        Some err \<Rightarrow>
          Delete_deferred d target (Some (Status Internal (CouldNotDeleteDirectory subpath))) tr3
      | None \<Rightarrow> Delete_deferred d target None tr3))))))"

section \<open>Concrete collaborators and requests\<close>

text \<open>
  The inputs at which the theorems below are instantiated: a remote service and a
  mounter whose every call succeeds, a remote service whose \<open>CreateAccessPoint\<close>
  fails, the \<open>BrokenOsClient\<close> of the repository's tests, whose every call fails, and
  a package whose default range is the one the repository's README documents, its
  other values being examples (its \<open>path_Join\<close> is \<open>path.Join\<close> on a clean first
  path and a clean second path that begins with a slash).
\<close>

definition cloud_ok :: Cloud where
  "cloud_ok =
     \<lparr>DescribeFileSystem = (\<lambda>tr fsId. None),
      CreateAccessPoint = (\<lambda>tr volName opts. Inr \<lparr>AccessPointId = ''fsap-9''\<rparr>),
      DescribeMountTargets = (\<lambda>tr fsId azName. Inr \<lparr>IPAddress = ''10.0.0.1''\<rparr>)\<rparr>"

definition cloud_create_fails :: Cloud where
  "cloud_create_fails = cloud_ok\<lparr>CreateAccessPoint := (\<lambda>tr volName opts. Inl (ErrOther ''throttled''))\<rparr>"

definition mounter_ok :: Mounter where
  "mounter_ok =
     \<lparr>MakeDir = (\<lambda>tr target. None),
      Mount = (\<lambda>tr source target fstype options. None),
      Unmount = (\<lambda>tr target. None)\<rparr>"

definition BrokenOsClient :: OsClient where
  "BrokenOsClient =
     \<lparr>MkDirAllWithPerms = (\<lambda>tr path perms uid gid. Some ''PathError''),
      Remove = (\<lambda>tr path. Some ''PathError''),
      RemoveAll = (\<lambda>tr path. Some ''PathError'')\<rparr>"

definition pkg0 :: package where
  "pkg0 =
     \<lparr>DefaultTagKey = ''efs.csi.aws.com/cluster'',
      DefaultTagValue = ''true'',
      DefaultGidMin = 50000,
      DefaultGidMax = 7000000,
      TempMountPathPrefix = ''/var/lib/csi/pv'',
      NewCloudWithRole = (\<lambda>roleArn. Some cloud_ok),
      getCloud = (\<lambda>c secrets. Inr (c, [])),
      getMountOptions = (\<lambda>c fsId roleArn. Inr [''tls'', ''iam'']),
      path_Join = (\<lambda>a b. a @ b)\<rparr>"

definition provisioner0 :: AccessPointProvisioner where
  "provisioner0 = \<lparr>tags = Map.empty, cloud = cloud_ok\<rparr>"

definition world0 :: world where
  "world0 = \<lparr>allocator = Map.empty, calls = []\<rparr>"

definition request :: "(param \<rightharpoonup> string) \<Rightarrow> CreateVolumeRequest" where
  "request ps = \<lparr>Name = ''vol'', CapacityRange = Some 5368709120, Parameters = ps, Secrets = Map.empty\<rparr>"

definition directoryProvisioner :: "OsClient \<Rightarrow> bool \<Rightarrow> DirectoryProvisioner" where
  "directoryProvisioner os del =
     \<lparr>mounter = mounter_ok, cloud_d = cloud_ok, osClient = os, deleteProvisionedDir = del\<rparr>"

section \<open>The tag parser on the spec's examples\<close>

lemma extractPairs_example:
  "extractPairsFromRawString ''a:'x y':b:c'' = [''a:'x y':b:c'']"
  by (simp add: extractPairsFromRawString_def)

lemma extractKeyAndValue_example:
  "extractKeyAndValueFromRawPair ''a:'x y':b:c'' = Inr (''a'', ''x y':b:c'')"
  by (simp add: extractKeyAndValueFromRawPair_def Let_def)

text \<open>
  C8: a token without an unquoted colon contributes no entry, the other tokens of the
  string are still parsed. The code departs from the first half: the loop of
  \<open>extractKeyAndValueFromRawPair\<close> leaves \<open>finalKeyIndex\<close> at \<open>-1\<close>, no check
  follows, and the value is cut from index \<open>0\<close>. The token \<open>novalue\<close> is stored
  under the key \<open>novalue\<close> with the value \<open>novalue\<close>, alone and between two
  well-formed tokens, which are parsed as the claim says.
\<close>

theorem parseTagsFromStr_keeps_token_without_colon:
  "parseTagsFromStr ''novalue'' = [''novalue'' \<mapsto> ''novalue'']
   \<and> parseTagsFromStr ''a:b novalue c:d''
       = [''a'' \<mapsto> ''b'', ''novalue'' \<mapsto> ''novalue'', ''c'' \<mapsto> ''d'']"
  by (simp add: parseTagsFromStr_def extractPairsFromRawString_def
      extractKeyAndValueFromRawPair_def Let_def)

text \<open>
  C9, as the claim states it: the parser applied to \<open>a:'x y':b:c\<close> returns the
  two-entry mapping of \<open>a\<close> to \<open>x y\<close> and \<open>b\<close> to \<open>c\<close>. It does not: the input has
  no unquoted space, so it is one token, and the mapping returned has no key \<open>b\<close>.
\<close>

theorem parseTagsFromStr_quoted_counterexample:
  "parseTagsFromStr ''a:'x y':b:c'' \<noteq> [''a'' \<mapsto> ''x y'', ''b'' \<mapsto> ''c'']"
proof
  assume eq: "parseTagsFromStr ''a:'x y':b:c'' = [''a'' \<mapsto> ''x y'', ''b'' \<mapsto> ''c'']"
  have "parseTagsFromStr ''a:'x y':b:c'' ''b'' = None"
    by (simp add: parseTagsFromStr_def extractPairs_example extractKeyAndValue_example)
  with eq show False by simp
qed

text \<open>
  C9, amended: the tag parser applied to \<open>a:'x y':b:c\<close> returns exactly the
  one-entry mapping of \<open>a\<close> to \<open>x y':b:c\<close>. The whole input is one token, it is split
  at its first unquoted colon, and only the leading quote of the value is stripped,
  the value not ending in a quote. The two-entry mapping of the claim is what the
  parser returns when an unquoted space separates the two pairs, \<open>a:'x y' b:c\<close>.
\<close>

theorem parseTagsFromStr_quoted:
  "parseTagsFromStr ''a:'x y':b:c'' = [''a'' \<mapsto> ''x y':b:c'']
   \<and> parseTagsFromStr ''a:'x y' b:c'' = [''a'' \<mapsto> ''x y'', ''b'' \<mapsto> ''c'']"
  by (simp add: parseTagsFromStr_def extractPairsFromRawString_def
      extractKeyAndValueFromRawPair_def Let_def)

section \<open>Validation of uid and gid in the access-point provisioner\<close>

lemmas eval_params = fileSystemIdParam_def uidParam_def gidParam_def gidRangeParams_def
  Atoi_def digitsValue_def isDigit_def Let_def

lemma Provision_gid_without_uid:
  assumes "Parameters req Gid = Some v" and "Parameters req Uid = None"
  shows "\<exists>m. AccessPointProvisioner_Provision pkg a req w = (Inl (Status InvalidArgument m), w)"
  using assms
  by (auto simp: AccessPointProvisioner_Provision_def fileSystemIdParam_def uidParam_def
      gidParam_def Let_def split: option.splits)

text \<open>
  C1: a supplied gid is rejected with \<open>InvalidArgument\<close> exactly when it does not parse
  or parses to a negative integer, whether or not a uid was supplied. The code departs
  from it both ways, because the range check of the gid block reads \<open>uid\<close>: the request
  with the gid \<open>1000\<close> and no uid is rejected with the message of the gid range check,
  for every provisioner and state, and next to the uid \<open>5\<close> the gid \<open>-7\<close> passes the
  gid block.
\<close>

theorem Provision_rejects_valid_gid_without_uid:
  "AccessPointProvisioner_Provision pkg a (request [FsId \<mapsto> ''fs-1'', Gid \<mapsto> ''1000'']) w
     = (Inl (Status InvalidArgument (MustBeGreaterOrEqualThan0 Gid)), w)
   \<and> Atoi ''1000'' = Some 1000
   \<and> uidParam [FsId \<mapsto> ''fs-1'', Uid \<mapsto> ''5'', Gid \<mapsto> ''-7''] = Inr 5
   \<and> gidParam [FsId \<mapsto> ''fs-1'', Uid \<mapsto> ''5'', Gid \<mapsto> ''-7''] 5 = Inr (- 7)"
  by (simp add: AccessPointProvisioner_Provision_def request_def eval_params)

text \<open>
  C10: every request whose parameters include a gid but no uid gets an
  \<open>InvalidArgument\<close> error from \<open>Provision\<close>, before any collaborator is called, also
  when the gid is a valid non-negative integer: the uid block leaves \<open>uid\<close> at its
  sentinel \<open>-1\<close> and the range check of the gid block, which reads \<open>uid\<close>, fails.
  Conversely, next to a uid that parses to a non-negative integer, a gid that parses
  to a negative integer passes the gid block.
\<close>

theorem gid_range_check_reads_uid:
  "(Parameters req Gid = Some v \<and> Parameters req Uid = None
      \<longrightarrow> (\<exists>m. AccessPointProvisioner_Provision pkg a req w = (Inl (Status InvalidArgument m), w)))
   \<and> (Parameters req Gid = Some v \<and> Parameters req Uid = None \<and> Atoi v = Some k \<and> 0 \<le> k
      \<longrightarrow> uidParam (Parameters req) = Inr (- 1)
        \<and> gidParam (Parameters req) (- 1)
            = Inl (Status InvalidArgument (MustBeGreaterOrEqualThan0 Gid)))
   \<and> (Parameters req Uid = Some u \<and> Atoi u = Some n \<and> 0 \<le> n
       \<and> Parameters req Gid = Some v \<and> Atoi v = Some k \<and> k < 0
      \<longrightarrow> uidParam (Parameters req) = Inr n \<and> gidParam (Parameters req) n = Inr k)"
  using Provision_gid_without_uid [of req v pkg a w]
  by (simp add: uidParam_def gidParam_def)

theorem gid_range_check_reads_uid_witness:
  "(\<exists>m. AccessPointProvisioner_Provision pkg0 provisioner0
           (request [FsId \<mapsto> ''fs-1'', Gid \<mapsto> ''1000'']) world0
         = (Inl (Status InvalidArgument m), world0))
   \<and> gidParam [FsId \<mapsto> ''fs-1'', Gid \<mapsto> ''1000''] (- 1)
       = Inl (Status InvalidArgument (MustBeGreaterOrEqualThan0 Gid))
   \<and> gidParam [FsId \<mapsto> ''fs-1'', Uid \<mapsto> ''5'', Gid \<mapsto> ''-7''] 5 = Inr (- 7)"
proof -
  have a5: "Atoi ''5'' = Some 5" and a7: "Atoi ''-7'' = Some (- 7)"
    and a1000: "Atoi ''1000'' = Some 1000"
    by (simp_all add: Atoi_def digitsValue_def isDigit_def Let_def)
  from gid_range_check_reads_uid
    [of "request [FsId \<mapsto> ''fs-1'', Gid \<mapsto> ''1000'']" "''1000''" pkg0 provisioner0
      world0 1000 "''5''" 5]
  have p1: "\<exists>m. AccessPointProvisioner_Provision pkg0 provisioner0
           (request [FsId \<mapsto> ''fs-1'', Gid \<mapsto> ''1000'']) world0
         = (Inl (Status InvalidArgument m), world0)"
    and p2: "gidParam [FsId \<mapsto> ''fs-1'', Gid \<mapsto> ''1000''] (- 1)
       = Inl (Status InvalidArgument (MustBeGreaterOrEqualThan0 Gid))"
    by (simp_all add: request_def a1000)
  from gid_range_check_reads_uid
    [of "request [FsId \<mapsto> ''fs-1'', Uid \<mapsto> ''5'', Gid \<mapsto> ''-7'']" "''-7''" pkg0
      provisioner0 world0 "- 7" "''5''" 5]
  have p3: "gidParam [FsId \<mapsto> ''fs-1'', Uid \<mapsto> ''5'', Gid \<mapsto> ''-7''] 5 = Inr (- 7)"
    by (simp add: request_def a5 a7)
  from p1 p2 p3 show ?thesis by simp
qed

section \<open>Identity resolution and release in the access-point provisioner\<close>

lemma find_upto_first: "lo \<le> hi \<Longrightarrow> P lo \<Longrightarrow> List.find P [lo..hi] = Some lo"
  by (simp add: upto_rec1)

lemma getNextGid_Inr:
  assumes "getNextGid g fs lo hi = (Inr i, g')"
  shows "List.find (\<lambda>i. i \<notin> (case g fs of None \<Rightarrow> {} | Some h \<Rightarrow> h)) [lo..hi] = Some i"
    and "g' = g(fs \<mapsto> insert i (case g fs of None \<Rightarrow> {} | Some h \<Rightarrow> h))"
  using assms by (auto simp: getNextGid_def Let_def split: option.splits)

lemma find_Some_holds: "List.find P xs = Some x \<Longrightarrow> P x"
  by (auto simp: find_Some_iff)

lemma release_then_reacquire:
  assumes "getNextGid g fs lo hi = (Inr i, g')"
  shows "getNextGid (releaseGid g' fs i) fs lo hi = (Inr i, g')"
proof -
  let ?held = "case g fs of None \<Rightarrow> {} | Some h \<Rightarrow> h"
  have f: "List.find (\<lambda>i. i \<notin> ?held) [lo..hi] = Some i"
    and g': "g' = g(fs \<mapsto> insert i ?held)"
    using getNextGid_Inr [OF assms] by simp_all
  have "i \<notin> ?held" using find_Some_holds [OF f] .
  then have r: "releaseGid g' fs i = g(fs \<mapsto> ?held)"
    by (simp add: releaseGid_def g')
  have "getNextGid (g(fs \<mapsto> ?held)) fs lo hi = (Inr i, g(fs \<mapsto> insert i ?held))"
    by (simp add: getNextGid_def f)
  with r show ?thesis by (simp add: g')
qed

text \<open>
  Whenever the allocator is asked, the variable \<open>gid\<close> is at its sentinel: a uid at
  the sentinel was not supplied, and then a supplied gid does not pass the gid block.
\<close>

lemma sentinel_uid_forces_sentinel_gid:
  assumes "uidParam ps = Inr uid" and "gidParam ps uid = Inr gid" and "uid = - 1 \<or> gid = - 1"
  shows "gid = - 1"
  using assms
  by (auto simp: uidParam_def gidParam_def split: option.splits if_splits)

lemma Provision_calls_acquires:
  assumes describe: "DescribeFileSystem localCloud (calls w) fsId = None"
    and acquire: "getNextGid (allocator w) fsId gidMin gidMax = (Inr allocatedGid, g)"
    and opts: "opts = accessPointsOptions pkg a req fsId
                 (if uid = - 1 then allocatedGid else uid) allocatedGid"
  shows "\<exists>r w' more.
           Provision_calls pkg a req localCloud roleArn fsId uid (- 1) gidMin gidMax w = (r, w')
         \<and> calls w' = calls w @ [DescribeFileSystemCall fsId,
                                   GetNextGidCall fsId gidMin gidMax,
                                   CreateAccessPointCall (Name req) opts] @ more"
  using describe acquire unfolding opts
  by (auto simp: Provision_calls_def Let_def split: sum.splits)

text \<open>
  C2: when \<open>CreateAccessPoint\<close> fails after an identity was allocated, the identity is
  released before the error is returned, and a later \<open>Provision\<close> for the same
  filesystem and range can acquire the same id again. The hypotheses say that the
  request passes validation, that \<open>DescribeFileSystem\<close> succeeds, that the allocator
  is asked and returns \<open>allocatedGid\<close>, and that the call of \<open>CreateAccessPoint\<close>, made
  with the options \<open>opts\<close>, fails. Then \<open>Provision\<close> returns the error in the state
  \<open>w'\<close>, whose last call is the release of \<open>allocatedGid\<close>; the allocator of \<open>w'\<close>
  hands \<open>allocatedGid\<close> out again; and the same request run in \<open>w'\<close>, once
  \<open>DescribeFileSystem\<close> has succeeded, acquires an id and calls \<open>CreateAccessPoint\<close>
  with the same options \<open>opts\<close>, that is with \<open>allocatedGid\<close>.
\<close>

theorem Provision_releases_identity_on_create_failure:
  assumes name: "Name req \<noteq> []"
    and fs: "fileSystemIdParam (Parameters req) = Inr fsId"
    and uid: "uidParam (Parameters req) = Inr uid"
    and gid: "gidParam (Parameters req) uid = Inr gid"
    and range: "gidRangeParams pkg (Parameters req) = Inr (gidMin, gidMax)"
    and cl: "AccessPointProvisioner_getCloud pkg a (Secrets req) = Inr (localCloud, roleArn)"
    and describe: "DescribeFileSystem localCloud (calls w) fsId = None"
    and missing: "uid = - 1 \<or> gid = - 1"
    and acquire: "getNextGid (allocator w) fsId gidMin gidMax = (Inr allocatedGid, g)"
    and opts: "opts = accessPointsOptions pkg a req fsId
                 (if uid = - 1 then allocatedGid else uid) allocatedGid"
    and create: "CreateAccessPoint localCloud
                   (calls w @ [DescribeFileSystemCall fsId, GetNextGidCall fsId gidMin gidMax])
                   (Name req) opts = Inl err"
    and w': "w' = \<lparr>allocator = releaseGid g fsId allocatedGid,
                   calls = calls w @ [DescribeFileSystemCall fsId,
                                      GetNextGidCall fsId gidMin gidMax,
                                      CreateAccessPointCall (Name req) opts,
                                      ReleaseGidCall fsId allocatedGid]\<rparr>"
    and describe': "DescribeFileSystem localCloud (calls w') fsId = None"
  shows "AccessPointProvisioner_Provision pkg a req w
           = (Inl (if err = ErrAccessDenied then Status Unauthenticated AccessDenied
                   else if err = ErrAlreadyExists
                   then Status AlreadyExists AccessPointAlreadyExists
                   else Status Internal (FailedToCreateAccessPoint fsId)), w')
       \<and> getNextGid (allocator w') fsId gidMin gidMax = (Inr allocatedGid, g)
       \<and> (\<exists>r w'' more.
             AccessPointProvisioner_Provision pkg a req w' = (r, w'')
           \<and> calls w'' = calls w' @ [DescribeFileSystemCall fsId,
                                       GetNextGidCall fsId gidMin gidMax,
                                       CreateAccessPointCall (Name req) opts] @ more)"
proof -
  have g1: "gid = - 1"
    using sentinel_uid_forces_sentinel_gid [OF uid gid missing] .
  have reach: "AccessPointProvisioner_Provision pkg a req v
      = Provision_calls pkg a req localCloud roleArn fsId uid (- 1) gidMin gidMax v" for v
    using name
    by (simp add: AccessPointProvisioner_Provision_def fs uid gid [unfolded g1] range cl Let_def)
  have first: "Provision_calls pkg a req localCloud roleArn fsId uid (- 1) gidMin gidMax w
      = (Inl (if err = ErrAccessDenied then Status Unauthenticated AccessDenied
              else if err = ErrAlreadyExists then Status AlreadyExists AccessPointAlreadyExists
              else Status Internal (FailedToCreateAccessPoint fsId)), w')"
    using describe acquire create unfolding opts w'
    by (simp add: Provision_calls_def Let_def)
  have again: "getNextGid (allocator w') fsId gidMin gidMax = (Inr allocatedGid, g)"
    using release_then_reacquire [OF acquire] by (simp add: w')
  from Provision_calls_acquires [OF describe' again opts]
  show ?thesis by (simp add: reach first again)
qed

theorem Provision_releases_identity_on_create_failure_witness:
  "AccessPointProvisioner_Provision pkg0 (provisioner0\<lparr>cloud := cloud_create_fails\<rparr>)
       (request [FsId \<mapsto> ''fs-1'', GidMin \<mapsto> ''1000'', GidMax \<mapsto> ''2000'']) world0
     = (Inl (Status Internal (FailedToCreateAccessPoint ''fs-1'')),
        \<lparr>allocator = [''fs-1'' \<mapsto> {}],
         calls = [DescribeFileSystemCall ''fs-1'', GetNextGidCall ''fs-1'' 1000 2000,
            CreateAccessPointCall ''vol''
              (accessPointsOptions pkg0 (provisioner0\<lparr>cloud := cloud_create_fails\<rparr>)
                 (request [FsId \<mapsto> ''fs-1'', GidMin \<mapsto> ''1000'', GidMax \<mapsto> ''2000''])
                 ''fs-1'' 1000 1000),
            ReleaseGidCall ''fs-1'' 1000]\<rparr>)
   \<and> getNextGid [''fs-1'' \<mapsto> {}] ''fs-1'' 1000 2000 = (Inr 1000, [''fs-1'' \<mapsto> {1000}])
   \<and> (\<exists>r w'' more.
         AccessPointProvisioner_Provision pkg0 (provisioner0\<lparr>cloud := cloud_create_fails\<rparr>)
           (request [FsId \<mapsto> ''fs-1'', GidMin \<mapsto> ''1000'', GidMax \<mapsto> ''2000''])
           \<lparr>allocator = [''fs-1'' \<mapsto> {}],
            calls = [DescribeFileSystemCall ''fs-1'', GetNextGidCall ''fs-1'' 1000 2000,
               CreateAccessPointCall ''vol''
                 (accessPointsOptions pkg0 (provisioner0\<lparr>cloud := cloud_create_fails\<rparr>)
                    (request [FsId \<mapsto> ''fs-1'', GidMin \<mapsto> ''1000'', GidMax \<mapsto> ''2000''])
                    ''fs-1'' 1000 1000),
               ReleaseGidCall ''fs-1'' 1000]\<rparr>
         = (r, w'')
       \<and> calls w''
         = [DescribeFileSystemCall ''fs-1'', GetNextGidCall ''fs-1'' 1000 2000,
            CreateAccessPointCall ''vol''
              (accessPointsOptions pkg0 (provisioner0\<lparr>cloud := cloud_create_fails\<rparr>)
                 (request [FsId \<mapsto> ''fs-1'', GidMin \<mapsto> ''1000'', GidMax \<mapsto> ''2000''])
                 ''fs-1'' 1000 1000),
            ReleaseGidCall ''fs-1'' 1000,
            DescribeFileSystemCall ''fs-1'', GetNextGidCall ''fs-1'' 1000 2000,
            CreateAccessPointCall ''vol''
              (accessPointsOptions pkg0 (provisioner0\<lparr>cloud := cloud_create_fails\<rparr>)
                 (request [FsId \<mapsto> ''fs-1'', GidMin \<mapsto> ''1000'', GidMax \<mapsto> ''2000''])
                 ''fs-1'' 1000 1000)] @ more)"
proof -
  let ?a = "provisioner0\<lparr>cloud := cloud_create_fails\<rparr>"
  let ?req = "request [FsId \<mapsto> ''fs-1'', GidMin \<mapsto> ''1000'', GidMax \<mapsto> ''2000'']"
  let ?opts = "accessPointsOptions pkg0 ?a ?req ''fs-1'' 1000 1000"
  let ?w' = "\<lparr>allocator = [''fs-1'' \<mapsto> {}],
              calls = [DescribeFileSystemCall ''fs-1'', GetNextGidCall ''fs-1'' 1000 2000,
                       CreateAccessPointCall ''vol'' ?opts, ReleaseGidCall ''fs-1'' 1000]\<rparr>"
  have h1: "Name ?req \<noteq> []" by (simp add: request_def)
  have h2: "fileSystemIdParam (Parameters ?req) = Inr ''fs-1''"
    by (simp add: request_def eval_params)
  have h3: "uidParam (Parameters ?req) = Inr (- 1)" by (simp add: request_def eval_params)
  have h4: "gidParam (Parameters ?req) (- 1) = Inr (- 1)" by (simp add: request_def eval_params)
  have h5: "gidRangeParams pkg0 (Parameters ?req) = Inr (1000, 2000)"
    by (simp add: request_def eval_params)
  have h6: "AccessPointProvisioner_getCloud pkg0 ?a (Secrets ?req) = Inr (cloud_create_fails, [])"
    by (simp add: AccessPointProvisioner_getCloud_def request_def)
  have h7: "DescribeFileSystem cloud_create_fails (calls world0) ''fs-1'' = None"
    by (simp add: cloud_create_fails_def cloud_ok_def)
  have h8: "(- 1 :: int) = - 1 \<or> (- 1 :: int) = - 1" by simp
  have h9: "getNextGid (allocator world0) ''fs-1'' 1000 2000 = (Inr 1000, [''fs-1'' \<mapsto> {1000}])"
    by (simp add: getNextGid_def world0_def find_upto_first)
  have h10: "?opts = accessPointsOptions pkg0 ?a ?req ''fs-1''
                       (if (- 1 :: int) = - 1 then 1000 else - 1) 1000"
    by simp
  have h11: "CreateAccessPoint cloud_create_fails
       (calls world0 @ [DescribeFileSystemCall ''fs-1'', GetNextGidCall ''fs-1'' 1000 2000])
       (Name ?req) ?opts = Inl (ErrOther ''throttled'')"
    by (simp add: cloud_create_fails_def cloud_ok_def)
  have h12: "?w' = \<lparr>allocator = releaseGid [''fs-1'' \<mapsto> {1000}] ''fs-1'' 1000,
                    calls = calls world0 @ [DescribeFileSystemCall ''fs-1'',
                                            GetNextGidCall ''fs-1'' 1000 2000,
                                            CreateAccessPointCall (Name ?req) ?opts,
                                            ReleaseGidCall ''fs-1'' 1000]\<rparr>"
    by (simp add: releaseGid_def world0_def request_def)
  have h13: "DescribeFileSystem cloud_create_fails (calls ?w') ''fs-1'' = None"
    by (simp add: cloud_create_fails_def cloud_ok_def)
  from Provision_releases_identity_on_create_failure
    [OF h1 h2 h3 h4 h5 h6 h7 h8 h9 h10 h11 h12 h13]
  show ?thesis by (simp add: request_def)
qed

text \<open>
  C3: one integer is acquired when uid or gid is not supplied and fills what is
  missing, and nothing is acquired when both are supplied. The code departs from the
  last part: the request below supplies both, the uid \<open>5\<close> and the gid \<open>-1\<close>; the
  gid passes the gid block, whose range check reads \<open>uid\<close>, it equals the sentinel,
  so the allocator is asked, and \<open>CreateAccessPoint\<close> is called with the allocated
  \<open>1000\<close> as gid.
\<close>

theorem Provision_allocates_for_supplied_gid_minus_one:
  "AccessPointProvisioner_Provision pkg0 provisioner0
     (request [FsId \<mapsto> ''fs-1'', Uid \<mapsto> ''5'', Gid \<mapsto> ''-1'',
               GidMin \<mapsto> ''1000'', GidMax \<mapsto> ''2000'']) world0
   = (Inr \<lparr>CapacityBytes = 5368709120, VolumeId = ''fs-1::fsap-9'', VolumeContext = Map.empty\<rparr>,
      \<lparr>allocator = [''fs-1'' \<mapsto> {1000}],
       calls = [DescribeFileSystemCall ''fs-1'', GetNextGidCall ''fs-1'' 1000 2000,
                CreateAccessPointCall ''vol''
                  \<lparr>CapacityGiB = 5368709120,
                   Tags = [''efs.csi.aws.com/cluster'' \<mapsto> ''true''],
                   FileSystemId = ''fs-1'', DirectoryPerms_field = [],
                   Uid_field = 5, Gid_field = 1000, DirectoryPath = ''/vol''\<rparr>]\<rparr>)"
  by (simp add: AccessPointProvisioner_Provision_def Provision_calls_def request_def eval_params
      AccessPointProvisioner_getCloud_def provisioner0_def cloud_ok_def world0_def pkg0_def
      getNextGid_def find_upto_first accessPointsOptions_def GetRequiredBytes_def
      accessPointVolumeId_def)

section \<open>Cleanup in the directory provisioner\<close>

text \<open>
  C5: whenever the mount succeeded, \<open>Provision\<close> attempts to unmount and to remove the
  temporary mount-point before it returns, also when the creation of the directory
  failed. The code departs from it: when \<open>MkDirAllWithPerms\<close> fails after a mount that
  succeeded, \<open>Provision\<close> returns at once, and the call of \<open>MkDirAllWithPerms\<close> is the
  last one it makes; neither \<open>Unmount\<close> nor \<open>RemoveAll\<close> is called.
\<close>

theorem Provision_returns_without_cleanup_when_mkdir_fails:
  assumes fs: "fileSystemIdParam (Parameters req) = Inr fileSystemId"
    and cl: "getCloud pkg (cloud_d d) (Secrets req) = Inr (localCloud, roleArn)"
    and mo: "getMountOptions pkg localCloud fileSystemId roleArn = Inr mountOptions"
    and target: "target = TempMountPathPrefix pkg @ ''/'' @ uuid"
    and pd: "provisionedDirectory = path_Join pkg target
                ((case Parameters req BasePath of Some value \<Rightarrow> value | None \<Rightarrow> [])
                 @ ''/'' @ Name req)"
    and perms: "perms = (case Parameters req DirectoryPerms of
                           Some value \<Rightarrow>
                             (case ParseUint_8_32 value of
                                Some parsedPerms \<Rightarrow> parsedPerms | None \<Rightarrow> 493)
                         | None \<Rightarrow> 493)"
    and makedir: "MakeDir (mounter d) tr target = None"
    and mount: "Mount (mounter d) (tr @ [MakeDirCall target])
                  fileSystemId target ''efs'' mountOptions = None"
    and mkdir: "MkDirAllWithPerms (osClient d)
                  (tr @ [MakeDirCall target, MountCall fileSystemId target ''efs'' mountOptions])
                  provisionedDirectory perms uid gid = Some err"
  shows "DirectoryProvisioner_Provision pkg d uuid req uid gid tr
         = (Inl (Status Internal CouldNotProvisionDirectory),
            tr @ [MakeDirCall target, MountCall fileSystemId target ''efs'' mountOptions,
                  MkDirAllWithPermsCall provisionedDirectory perms uid gid])"
  using makedir mount mkdir unfolding pd perms target
  by (simp add: DirectoryProvisioner_Provision_def fs cl mo Let_def)

theorem Provision_returns_without_cleanup_when_mkdir_fails_witness:
  "DirectoryProvisioner_Provision pkg0 (directoryProvisioner BrokenOsClient False) ''u1''
     (request [FsId \<mapsto> ''fs-abcd1234'', DirectoryPerms \<mapsto> ''777'', BasePath \<mapsto> ''/dynamic''])
     1000 1000 []
   = (Inl (Status Internal CouldNotProvisionDirectory),
      [MakeDirCall ''/var/lib/csi/pv/u1'',
       MountCall ''fs-abcd1234'' ''/var/lib/csi/pv/u1'' ''efs'' [''tls'', ''iam''],
       MkDirAllWithPermsCall ''/var/lib/csi/pv/u1/dynamic/vol'' 511 1000 1000])"
proof -
  let ?d = "directoryProvisioner BrokenOsClient False"
  let ?req = "request [FsId \<mapsto> ''fs-abcd1234'', DirectoryPerms \<mapsto> ''777'',
                       BasePath \<mapsto> ''/dynamic'']"
  let ?t = "''/var/lib/csi/pv/u1''"
  have h1: "fileSystemIdParam (Parameters ?req) = Inr ''fs-abcd1234''"
    by (simp add: request_def fileSystemIdParam_def)
  have h2: "getCloud pkg0 (cloud_d ?d) (Secrets ?req) = Inr (cloud_ok, [])"
    by (simp add: pkg0_def directoryProvisioner_def)
  have h3: "getMountOptions pkg0 cloud_ok ''fs-abcd1234'' [] = Inr [''tls'', ''iam'']"
    by (simp add: pkg0_def)
  have h4: "?t = TempMountPathPrefix pkg0 @ ''/'' @ ''u1''" by (simp add: pkg0_def)
  have h5: "''/var/lib/csi/pv/u1/dynamic/vol'' = path_Join pkg0 ?t
              ((case Parameters ?req BasePath of Some value \<Rightarrow> value | None \<Rightarrow> [])
               @ ''/'' @ Name ?req)"
    by (simp add: pkg0_def request_def)
  have h6: "(511 :: nat) = (case Parameters ?req DirectoryPerms of
                      Some value \<Rightarrow>
                        (case ParseUint_8_32 value of
                           Some parsedPerms \<Rightarrow> parsedPerms | None \<Rightarrow> 493)
                    | None \<Rightarrow> 493)"
    by (simp add: request_def ParseUint_8_32_def digitsValue_def isOctalDigit_def)
  have h7: "MakeDir (mounter ?d) [] ?t = None"
    by (simp add: directoryProvisioner_def mounter_ok_def)
  have h8: "Mount (mounter ?d) ([] @ [MakeDirCall ?t]) ''fs-abcd1234'' ?t ''efs'' [''tls'', ''iam'']
            = None"
    by (simp add: directoryProvisioner_def mounter_ok_def)
  have h9: "MkDirAllWithPerms (osClient ?d)
              ([] @ [MakeDirCall ?t, MountCall ''fs-abcd1234'' ?t ''efs'' [''tls'', ''iam'']])
              ''/var/lib/csi/pv/u1/dynamic/vol'' 511 1000 1000 = Some ''PathError''"
    by (simp add: directoryProvisioner_def BrokenOsClient_def)
  from Provision_returns_without_cleanup_when_mkdir_fails [OF h1 h2 h3 h4 h5 h6 h7 h8 h9]
  show ?thesis by simp
qed

text \<open>
  C6: in \<open>Delete\<close> with \<open>deleteProvisionedDir\<close> set, when the recursive removal of the
  provisioned directory under the temporary mount fails, the removal of the
  mount-point directory and the unmount of the mount-point are both still attempted,
  and the call returns an \<open>Internal\<close> error. The two deferred functions run in the reverse order
  of their \<open>defer\<close> statements, so the log ends with the failed removal, then
  \<open>RemoveAll(target)\<close>, then \<open>Unmount(target)\<close>.
\<close>

theorem Delete_cleans_up_after_failed_removal:
  assumes del: "deleteProvisionedDir d"
    and vid: "parseVolumeId (DeleteVolumeId req) = (fileSystemId, subpath, accessPointId, perr)"
    and cl: "getCloud pkg (cloud_d d) (DeleteSecrets req) = Inr (localCloud, roleArn)"
    and mo: "getMountOptions pkg localCloud fileSystemId roleArn = Inr mountOptions"
    and target: "target = TempMountPathPrefix pkg @ ''/'' @ uuid"
    and makedir: "MakeDir (mounter d) tr target = None"
    and mount: "Mount (mounter d) (tr @ [MakeDirCall target])
                  fileSystemId target ''efs'' mountOptions = None"
    and remove: "RemoveAll (osClient d)
                  (tr @ [MakeDirCall target, MountCall fileSystemId target ''efs'' mountOptions])
                  (target @ subpath) = Some err"
  shows "(\<exists>m. fst (DirectoryProvisioner_Delete pkg d uuid req tr) = Some (Status Internal m))
       \<and> snd (DirectoryProvisioner_Delete pkg d uuid req tr)
         = tr @ [MakeDirCall target, MountCall fileSystemId target ''efs'' mountOptions,
                 RemoveAllCall (target @ subpath), RemoveAllCall target, UnmountCall target]"
  using del makedir mount remove unfolding target
  by (simp add: DirectoryProvisioner_Delete_def Delete_deferred_def vid cl mo Let_def
      split: option.splits)

theorem Delete_cleans_up_after_failed_removal_witness:
  "(\<exists>m. fst (DirectoryProvisioner_Delete pkg0 (directoryProvisioner BrokenOsClient True) ''u1''
             \<lparr>DeleteVolumeId = ''fs-abcd1234:/dynamic/newDir'', DeleteSecrets = Map.empty\<rparr> [])
         = Some (Status Internal m))
   \<and> snd (DirectoryProvisioner_Delete pkg0 (directoryProvisioner BrokenOsClient True) ''u1''
             \<lparr>DeleteVolumeId = ''fs-abcd1234:/dynamic/newDir'', DeleteSecrets = Map.empty\<rparr> [])
     = [MakeDirCall ''/var/lib/csi/pv/u1'',
        MountCall ''fs-abcd1234'' ''/var/lib/csi/pv/u1'' ''efs'' [''tls'', ''iam''],
        RemoveAllCall ''/var/lib/csi/pv/u1/dynamic/newDir'',
        RemoveAllCall ''/var/lib/csi/pv/u1'',
        UnmountCall ''/var/lib/csi/pv/u1'']"
proof -
  let ?d = "directoryProvisioner BrokenOsClient True"
  let ?req = "\<lparr>DeleteVolumeId = ''fs-abcd1234:/dynamic/newDir'', DeleteSecrets = Map.empty\<rparr>"
  let ?t = "''/var/lib/csi/pv/u1''"
  have h1: "deleteProvisionedDir ?d" by (simp add: directoryProvisioner_def)
  have h2: "parseVolumeId (DeleteVolumeId ?req) = (''fs-abcd1234'', ''/dynamic/newDir'', [], None)"
    by (simp add: parseVolumeId_def)
  have h3: "getCloud pkg0 (cloud_d ?d) (DeleteSecrets ?req) = Inr (cloud_ok, [])"
    by (simp add: pkg0_def directoryProvisioner_def)
  have h4: "getMountOptions pkg0 cloud_ok ''fs-abcd1234'' [] = Inr [''tls'', ''iam'']"
    by (simp add: pkg0_def)
  have h5: "?t = TempMountPathPrefix pkg0 @ ''/'' @ ''u1''" by (simp add: pkg0_def)
  have h6: "MakeDir (mounter ?d) [] ?t = None"
    by (simp add: directoryProvisioner_def mounter_ok_def)
  have h7: "Mount (mounter ?d) ([] @ [MakeDirCall ?t]) ''fs-abcd1234'' ?t ''efs'' [''tls'', ''iam'']
            = None"
    by (simp add: directoryProvisioner_def mounter_ok_def)
  have h8: "RemoveAll (osClient ?d)
              ([] @ [MakeDirCall ?t, MountCall ''fs-abcd1234'' ?t ''efs'' [''tls'', ''iam'']])
              (?t @ ''/dynamic/newDir'') = Some ''PathError''"
    by (simp add: directoryProvisioner_def BrokenOsClient_def)
  from Delete_cleans_up_after_failed_removal [OF h1 h2 h3 h4 h5 h6 h7 h8]
  show ?thesis by simp
qed

section \<open>The volume identifier codec\<close>

lemma takeWhile_before_colon:
  "CHR '':'' \<notin> set f \<Longrightarrow> takeWhile (\<lambda>c. c \<noteq> CHR '':'') (f @ CHR '':'' # r) = f"
  by (induction f) auto

lemma dropWhile_before_colon:
  "CHR '':'' \<notin> set f \<Longrightarrow> dropWhile (\<lambda>c. c \<noteq> CHR '':'') (f @ CHR '':'' # r) = CHR '':'' # r"
  by (induction f) auto

text \<open>
  C7, as the claim states it: every pair of a filesystem id and a sub-path, encoded in
  the directory form and decoded, comes back with an empty access-point id. It does
  not: the filesystem id \<open>fs-1\<close> with the sub-path \<open>:x\<close> has the same encoding as the
  filesystem id \<open>fs-1\<close> with the access-point id \<open>x\<close>, and decodes to the latter.
\<close>

theorem parseVolumeId_roundtrip_counterexample:
  "directoryVolumeId ''fs-1'' '':x'' = accessPointVolumeId ''fs-1'' ''x''
   \<and> parseVolumeId (directoryVolumeId ''fs-1'' '':x'') \<noteq> (''fs-1'', '':x'', [], None)"
  by (simp add: parseVolumeId_def accessPointVolumeId_def directoryVolumeId_def)

text \<open>
  C7, amended: for a filesystem id that contains no colon, the access-point form
  round-trips for every access-point id, and the directory form round-trips for every
  sub-path that does not begin with a colon (so for every sub-path that begins with a
  slash, as the data model has it): decoding the encoding gives back the filesystem id
  and the access-point id with an empty sub-path, or the filesystem id and the
  sub-path with an empty access-point id, and no error.
\<close>

theorem parseVolumeId_roundtrip:
  assumes "CHR '':'' \<notin> set filesystemId"
  shows "parseVolumeId (accessPointVolumeId filesystemId accessPointId)
           = (filesystemId, [], accessPointId, None)
       \<and> (subPath = [] \<or> hd subPath \<noteq> CHR '':''
            \<longrightarrow> parseVolumeId (directoryVolumeId filesystemId subPath)
                = (filesystemId, subPath, [], None))"
  using assms
  by (cases subPath)
     (simp_all add: parseVolumeId_def accessPointVolumeId_def directoryVolumeId_def
      takeWhile_before_colon dropWhile_before_colon)

theorem parseVolumeId_roundtrip_witness:
  "parseVolumeId (accessPointVolumeId ''fs-1'' ''fsap-9'') = (''fs-1'', [], ''fsap-9'', None)
   \<and> parseVolumeId (directoryVolumeId ''fs-1'' ''/dynamic/vol'')
       = (''fs-1'', ''/dynamic/vol'', [], None)"
  using parseVolumeId_roundtrip
    [where filesystemId = "''fs-1''" and subPath = "''/dynamic/vol''"
       and accessPointId = "''fsap-9''"]
  by simp

end
